theory Spec2Isabelle
  imports Complex_Main
begin

section \<open>BioHarness vitals simulator: generator, engine and broadcaster\<close>

text \<open>
  A shallow embedding of the generation-and-delivery pipeline of the BioHarness
  simulator. Python floats are modelled as exact rationals (\<^typ>\<open>rat\<close>): the
  arithmetic of the generator is followed exactly, binary rounding error is not.
  The process-wide random source, the clock, the network and the registered
  callbacks are explicit parameters or components of an explicit world state.
\<close>

subsection \<open>vital\_types.py\<close>

datatype VitalSignType =
    HEART_RATE
  | BLOOD_PRESSURE_SYSTOLIC
  | BLOOD_PRESSURE_DIASTOLIC
  | OXYGEN_SATURATION
  | BODY_TEMPERATURE
  | RESPIRATORY_RATE

datatype PatientSimulationMode =
    NORMAL_HEALTHY_PATIENT
  | ABNORMAL_CONDITION_PATIENT
  | EMERGENCY_CRITICAL_PATIENT

text \<open>The \<open>.value\<close> of the two string enums.\<close>

fun vital_type_value :: "VitalSignType \<Rightarrow> string" where
  "vital_type_value HEART_RATE = ''heart_rate''"
| "vital_type_value BLOOD_PRESSURE_SYSTOLIC = ''bp_systolic''"
| "vital_type_value BLOOD_PRESSURE_DIASTOLIC = ''bp_diastolic''"
| "vital_type_value OXYGEN_SATURATION = ''spo2''"
| "vital_type_value BODY_TEMPERATURE = ''temperature''"
| "vital_type_value RESPIRATORY_RATE = ''respiratory_rate''"

fun mode_value :: "PatientSimulationMode \<Rightarrow> string" where
  "mode_value NORMAL_HEALTHY_PATIENT = ''normal''"
| "mode_value ABNORMAL_CONDITION_PATIENT = ''abnormal''"
| "mode_value EMERGENCY_CRITICAL_PATIENT = ''emergency''"

type_synonym VitalValueRange = "rat \<times> rat"

subsection \<open>config\_settings.py\<close>

text \<open>
  The three range dictionaries are keyed by the string value of the vital type
  and hold all six keys, so \<open>TABLE[vital_type.value]\<close> is a total lookup over
  \<^typ>\<open>VitalSignType\<close>.
\<close>

fun NORMAL_VITAL_RANGES :: "VitalSignType \<Rightarrow> VitalValueRange" where
  "NORMAL_VITAL_RANGES HEART_RATE = (60, 100)"
| "NORMAL_VITAL_RANGES BLOOD_PRESSURE_SYSTOLIC = (90, 140)"
| "NORMAL_VITAL_RANGES BLOOD_PRESSURE_DIASTOLIC = (60, 90)"
| "NORMAL_VITAL_RANGES OXYGEN_SATURATION = (95, 100)"
| "NORMAL_VITAL_RANGES BODY_TEMPERATURE = (361 / 10, 372 / 10)"
| "NORMAL_VITAL_RANGES RESPIRATORY_RATE = (12, 20)"

fun ABNORMAL_VITAL_RANGES :: "VitalSignType \<Rightarrow> VitalValueRange" where
  "ABNORMAL_VITAL_RANGES HEART_RATE = (40, 180)"
| "ABNORMAL_VITAL_RANGES BLOOD_PRESSURE_SYSTOLIC = (70, 200)"
| "ABNORMAL_VITAL_RANGES BLOOD_PRESSURE_DIASTOLIC = (40, 120)"
| "ABNORMAL_VITAL_RANGES OXYGEN_SATURATION = (85, 94)"
| "ABNORMAL_VITAL_RANGES BODY_TEMPERATURE = (35, 40)"
| "ABNORMAL_VITAL_RANGES RESPIRATORY_RATE = (8, 30)"

fun EMERGENCY_VITAL_RANGES :: "VitalSignType \<Rightarrow> VitalValueRange" where
  "EMERGENCY_VITAL_RANGES HEART_RATE = (30, 220)"
| "EMERGENCY_VITAL_RANGES BLOOD_PRESSURE_SYSTOLIC = (60, 250)"
| "EMERGENCY_VITAL_RANGES BLOOD_PRESSURE_DIASTOLIC = (30, 150)"
| "EMERGENCY_VITAL_RANGES OXYGEN_SATURATION = (70, 84)"
| "EMERGENCY_VITAL_RANGES BODY_TEMPERATURE = (32, 42)"
| "EMERGENCY_VITAL_RANGES RESPIRATORY_RATE = (5, 40)"

definition DEFAULT_SIMULATION_INTERVAL_SECONDS :: int where
  "DEFAULT_SIMULATION_INTERVAL_SECONDS = 10"

definition DEFAULT_PATIENT_IDENTIFIER :: string where
  "DEFAULT_PATIENT_IDENTIFIER = ''patient_001''"

definition DEFAULT_DEVICE_IDENTIFIER :: string where
  "DEFAULT_DEVICE_IDENTIFIER = ''BioHarness_Sim_001''"

definition RULE_ENGINE_BASE_URL :: string where
  "RULE_ENGINE_BASE_URL = ''http://localhost:3000''"

definition RULE_ENGINE_VITALS_ENDPOINT :: string where
  "RULE_ENGINE_VITALS_ENDPOINT = ''/api/vitals/stream''"

definition RULE_ENGINE_CONNECTION_TIMEOUT_SECONDS :: int where
  "RULE_ENGINE_CONNECTION_TIMEOUT_SECONDS = 5"

definition RULE_ENGINE_REQUEST_RETRY_COUNT :: int where
  "RULE_ENGINE_REQUEST_RETRY_COUNT = 3"

definition UI_HTTP_ENDPOINT :: string where
  "UI_HTTP_ENDPOINT = ''http://localhost:3001/api/vitals/update''"

definition UI_CONNECTION_TIMEOUT_SECONDS :: int where
  "UI_CONNECTION_TIMEOUT_SECONDS = 3"

definition ENABLE_RULE_ENGINE_BROADCASTING :: bool where
  "ENABLE_RULE_ENGINE_BROADCASTING = True"

definition ENABLE_UI_BROADCASTING :: bool where
  "ENABLE_UI_BROADCASTING = True"

definition BROADCASTING_RETRY_DELAY_SECONDS :: int where
  "BROADCASTING_RETRY_DELAY_SECONDS = 2"

definition MAX_BROADCASTING_RETRIES :: int where
  "MAX_BROADCASTING_RETRIES = 3"

subsection \<open>Python built-ins used by the generator and the engine\<close>

text \<open>
  \<open>round(x, 1)\<close>: the nearest multiple of one tenth, a tie going to the even
  multiple. \<open>int(x)\<close>: truncation toward zero.
\<close>

definition round_half_even :: "rat \<Rightarrow> int" where
  "round_half_even x =
     (let f = \<lfloor>x\<rfloor>; d = x - of_int f
      in if d < 1 / 2 then f
         else if 1 / 2 < d then f + 1
         else if even f then f else f + 1)"

definition round1 :: "rat \<Rightarrow> rat" where
  "round1 x = of_int (round_half_even (x * 10)) / 10"

definition py_int :: "rat \<Rightarrow> int" where
  "py_int x = (if 0 \<le> x then \<lfloor>x\<rfloor> else \<lceil>x\<rceil>)"

definition is_one_decimal :: "rat \<Rightarrow> bool" where
  "is_one_decimal x = (of_int \<lfloor>x * 10\<rfloor> = x * 10)"

text \<open>
  The random source: \<open>random.random()\<close> returns the next draw, a number in
  \<open>[0, 1)\<close>; \<open>random.uniform(a, b)\<close> is \<open>a + (b - a) * random()\<close>.
\<close>

record random_state =
  rs_source :: "nat \<Rightarrow> rat"
  rs_consumed :: nat


definition constant_source :: "rat \<Rightarrow> nat \<Rightarrow> rat" where
  "constant_source c n = c"

definition random_random :: "random_state \<Rightarrow> rat \<times> random_state" where
  "random_random rs =
     (rs_source rs (rs_consumed rs), rs\<lparr>rs_consumed := Suc (rs_consumed rs)\<rparr>)"

definition random_uniform :: "rat \<Rightarrow> rat \<Rightarrow> random_state \<Rightarrow> rat \<times> random_state" where
  "random_uniform a b rs =
     (case random_random rs of (u, rs') \<Rightarrow> (a + (b - a) * u, rs'))"

subsection \<open>vitals\_generator.py\<close>

datatype py_error = ValueError string

record VitalSignsValueGenerator =
  custom_vital_ranges :: "VitalSignType \<rightharpoonup> VitalValueRange"

definition new_generator :: VitalSignsValueGenerator where
  "new_generator = \<lparr>custom_vital_ranges = Map.empty\<rparr>"

fun predefined_vital_ranges :: "PatientSimulationMode \<Rightarrow> VitalSignType \<Rightarrow> VitalValueRange" where
  "predefined_vital_ranges NORMAL_HEALTHY_PATIENT = NORMAL_VITAL_RANGES"
| "predefined_vital_ranges ABNORMAL_CONDITION_PATIENT = ABNORMAL_VITAL_RANGES"
| "predefined_vital_ranges EMERGENCY_CRITICAL_PATIENT = EMERGENCY_VITAL_RANGES"

text \<open>
  A setter returns what the call yields (the raised error or \<open>None\<close>) together with
  the generator as it is after the call.
\<close>

definition set_custom_vital_range ::
  "VitalSignsValueGenerator \<Rightarrow> VitalSignType \<Rightarrow> rat \<Rightarrow> rat
    \<Rightarrow> (py_error + unit) \<times> VitalSignsValueGenerator" where
  "set_custom_vital_range gen vital_type minimum_value maximum_value =
     (if minimum_value \<ge> maximum_value
      then (Inl (ValueError ''Minimum value must be less than maximum value''), gen)
      else (Inr (),
            gen\<lparr>custom_vital_ranges :=
                  (custom_vital_ranges gen)(vital_type \<mapsto> (minimum_value, maximum_value))\<rparr>))"

definition remove_custom_vital_range ::
  "VitalSignsValueGenerator \<Rightarrow> VitalSignType \<Rightarrow> bool \<times> VitalSignsValueGenerator" where
  "remove_custom_vital_range gen vital_type =
     (custom_vital_ranges gen vital_type \<noteq> None,
      gen\<lparr>custom_vital_ranges := (custom_vital_ranges gen)(vital_type := None)\<rparr>)"

definition get_vital_range_for_mode ::
  "VitalSignsValueGenerator \<Rightarrow> VitalSignType \<Rightarrow> PatientSimulationMode \<Rightarrow> VitalValueRange" where
  "get_vital_range_for_mode gen vital_type simulation_mode =
     (case custom_vital_ranges gen vital_type of
        Some r \<Rightarrow> r
      | None \<Rightarrow> predefined_vital_ranges simulation_mode vital_type)"

definition generate_normal_patient_value ::
  "rat \<Rightarrow> rat \<Rightarrow> random_state \<Rightarrow> rat \<times> random_state" where
  "generate_normal_patient_value min_val max_val rs =
     (let center_point = (min_val + max_val) / 2;
          variation_range = (max_val - min_val) * (15 / 100)
      in case random_uniform (center_point - variation_range)
                (center_point + variation_range) rs of
           (generated_value, rs') \<Rightarrow>
             (round1 (max min_val (min max_val generated_value)), rs'))"

definition generate_abnormal_patient_value ::
  "VitalSignType \<Rightarrow> rat \<Rightarrow> rat \<Rightarrow> random_state \<Rightarrow> rat \<times> random_state" where
  "generate_abnormal_patient_value vital_type min_val max_val rs =
     (case random_random rs of (r1, rs1) \<Rightarrow>
        if r1 < 3 / 10 then
          (case random_random rs1 of (r2, rs2) \<Rightarrow>
             if r2 < 1 / 2 then
               (let spike_range = min_val + (max_val - min_val) * (25 / 100)
                in case random_uniform min_val spike_range rs2 of
                     (generated_value, rs3) \<Rightarrow> (round1 generated_value, rs3))
             else
               (let spike_range = max_val - (max_val - min_val) * (25 / 100)
                in case random_uniform spike_range max_val rs2 of
                     (generated_value, rs3) \<Rightarrow> (round1 generated_value, rs3)))
        else
          (let normal_ranges = NORMAL_VITAL_RANGES vital_type
           in case random_uniform (fst normal_ranges) (snd normal_ranges) rs1 of
                (generated_value, rs2) \<Rightarrow> (round1 generated_value, rs2)))"

definition generate_emergency_patient_value ::
  "VitalSignType \<Rightarrow> rat \<Rightarrow> rat \<Rightarrow> random_state \<Rightarrow> rat \<times> random_state" where
  "generate_emergency_patient_value vital_type min_val max_val rs =
     (case random_random rs of (r1, rs1) \<Rightarrow>
        if r1 < 75 / 100 then
          (case random_random rs1 of (r2, rs2) \<Rightarrow>
             if r2 < 1 / 2 then
               (let critical_range = min_val + (max_val - min_val) * (3 / 10)
                in case random_uniform min_val critical_range rs2 of
                     (generated_value, rs3) \<Rightarrow> (round1 generated_value, rs3))
             else
               (let critical_range = max_val - (max_val - min_val) * (3 / 10)
                in case random_uniform critical_range max_val rs2 of
                     (generated_value, rs3) \<Rightarrow> (round1 generated_value, rs3)))
        else
          (let abnormal_ranges = ABNORMAL_VITAL_RANGES vital_type
           in case random_uniform (fst abnormal_ranges) (snd abnormal_ranges) rs1 of
                (generated_value, rs2) \<Rightarrow> (round1 generated_value, rs2)))"

definition generate_vital_sign_value ::
  "VitalSignsValueGenerator \<Rightarrow> VitalSignType \<Rightarrow> PatientSimulationMode \<Rightarrow> random_state
    \<Rightarrow> rat \<times> random_state" where
  "generate_vital_sign_value gen vital_type simulation_mode rs =
     (case get_vital_range_for_mode gen vital_type simulation_mode of
        (minimum_value, maximum_value) \<Rightarrow>
          if simulation_mode = NORMAL_HEALTHY_PATIENT
          then generate_normal_patient_value minimum_value maximum_value rs
          else if simulation_mode = ABNORMAL_CONDITION_PATIENT
          then generate_abnormal_patient_value vital_type minimum_value maximum_value rs
          else generate_emergency_patient_value vital_type minimum_value maximum_value rs)"

subsection \<open>data\_models.py\<close>

text \<open>JSON-serialisable values: what a payload dictionary is made of.\<close>

datatype json =
    JNull
  | JBool bool
  | JInt int
  | JNum rat
  | JStr string
  | JObj "(string \<times> json) list"

record PatientVitalSigns =
  timestamp_iso_format :: string
  heart_rate_bpm :: int
  blood_pressure_systolic_mmhg :: int
  blood_pressure_diastolic_mmhg :: int
  oxygen_saturation_percentage :: int
  body_temperature_celsius :: rat
  respiratory_rate_per_minute :: int
  simulation_mode_used :: string
  monitoring_device_identifier :: string
  patient_identifier :: string
  data_quality_score :: "rat option"
  signal_strength_indicator :: "int option"

definition to_json_serializable_dict :: "PatientVitalSigns \<Rightarrow> (string \<times> json) list" where
  "to_json_serializable_dict vs =
     [(''timestamp'', JStr (timestamp_iso_format vs)),
      (''vitals'', JObj
         [(''heart_rate'', JInt (heart_rate_bpm vs)),
          (''bp_systolic'', JInt (blood_pressure_systolic_mmhg vs)),
          (''bp_diastolic'', JInt (blood_pressure_diastolic_mmhg vs)),
          (''spo2'', JInt (oxygen_saturation_percentage vs)),
          (''temperature'', JNum (body_temperature_celsius vs)),
          (''respiratory_rate'', JInt (respiratory_rate_per_minute vs))]),
      (''metadata'', JObj
         [(''device_id'', JStr (monitoring_device_identifier vs)),
          (''patient_id'', JStr (patient_identifier vs)),
          (''mode'', JStr (simulation_mode_used vs)),
          (''quality_score'',
             (case data_quality_score vs of None \<Rightarrow> JNull | Some q \<Rightarrow> JNum q)),
          (''signal_strength'',
             (case signal_strength_indicator vs of None \<Rightarrow> JNull | Some n \<Rightarrow> JInt n))])]"

text \<open>The argument \<open>now\<close> is \<open>datetime.now().isoformat()\<close> at the time of the call.\<close>

definition create_current_timestamp_reading ::
  "int \<Rightarrow> int \<Rightarrow> int \<Rightarrow> int \<Rightarrow> rat \<Rightarrow> int \<Rightarrow> PatientSimulationMode \<Rightarrow> string \<Rightarrow> string
    \<Rightarrow> string \<Rightarrow> PatientVitalSigns" where
  "create_current_timestamp_reading heart_rate bp_systolic bp_diastolic spo2 temperature
       respiratory_rate mode device_id patient_id now =
     \<lparr>timestamp_iso_format = now @ ''Z'',
      heart_rate_bpm = heart_rate,
      blood_pressure_systolic_mmhg = bp_systolic,
      blood_pressure_diastolic_mmhg = bp_diastolic,
      oxygen_saturation_percentage = spo2,
      body_temperature_celsius = temperature,
      respiratory_rate_per_minute = respiratory_rate,
      simulation_mode_used = mode_value mode,
      monitoring_device_identifier = device_id,
      patient_identifier = patient_id,
      data_quality_score = None,
      signal_strength_indicator = None\<rparr>"

record BroadcastingResult =
  destination_name :: string
  was_successful :: bool
  error_message :: "string option"
  response_status_code :: "int option"
  transmission_timestamp :: "string option"

subsection \<open>simulation\_engine.py\<close>

text \<open>
  A registered callback is a callable; it is named by an identifier, and what it
  does when called is given by a behaviour function: it returns, or it raises an
  instance of \<open>Exception\<close> (the class the notification handler names) with a message.
\<close>

type_synonym callback_function = nat

datatype callback_outcome = Returned | Raised string

datatype thread = Thread string

record PatientVitalsSimulationEngine =
  self_current_simulation_mode :: PatientSimulationMode
  self_data_generation_interval_seconds :: int
  self_target_patient_identifier :: string
  self_monitoring_device_identifier :: string
  self_is_continuous_simulation_running :: bool
  self_simulation_thread :: "thread option"
  self_vital_signs_generator :: VitalSignsValueGenerator
  self_most_recent_vital_signs :: "PatientVitalSigns option"
  self_data_broadcasting_callbacks :: "callback_function list"

text \<open>
  What the engine acts on outside itself: the random source, the clock, the calls
  received by the callbacks (in order) and the lines printed.
\<close>

record engine_world =
  ew_random :: random_state
  ew_now :: string
  ew_calls :: "(callback_function \<times> PatientVitalSigns) list"
  ew_printed :: "string list"

definition new_engine :: PatientVitalsSimulationEngine where
  "new_engine =
     \<lparr>self_current_simulation_mode = NORMAL_HEALTHY_PATIENT,
      self_data_generation_interval_seconds = DEFAULT_SIMULATION_INTERVAL_SECONDS,
      self_target_patient_identifier = DEFAULT_PATIENT_IDENTIFIER,
      self_monitoring_device_identifier = DEFAULT_DEVICE_IDENTIFIER,
      self_is_continuous_simulation_running = False,
      self_simulation_thread = None,
      self_vital_signs_generator = new_generator,
      self_most_recent_vital_signs = None,
      self_data_broadcasting_callbacks = []\<rparr>"

definition set_simulation_mode ::
  "PatientVitalsSimulationEngine \<Rightarrow> PatientSimulationMode \<Rightarrow> PatientVitalsSimulationEngine" where
  "set_simulation_mode e new_mode = e\<lparr>self_current_simulation_mode := new_mode\<rparr>"

definition add_data_broadcasting_callback ::
  "PatientVitalsSimulationEngine \<Rightarrow> callback_function \<Rightarrow> PatientVitalsSimulationEngine" where
  "add_data_broadcasting_callback e cb =
     e\<lparr>self_data_broadcasting_callbacks := self_data_broadcasting_callbacks e @ [cb]\<rparr>"

definition remove_data_broadcasting_callback ::
  "PatientVitalsSimulationEngine \<Rightarrow> callback_function \<Rightarrow> bool \<times> PatientVitalsSimulationEngine" where
  "remove_data_broadcasting_callback e cb =
     (if cb \<in> set (self_data_broadcasting_callbacks e)
      then (True, e\<lparr>self_data_broadcasting_callbacks :=
                       remove1 cb (self_data_broadcasting_callbacks e)\<rparr>)
      else (False, e))"

definition set_custom_vital_sign_range ::
  "PatientVitalsSimulationEngine \<Rightarrow> VitalSignType \<Rightarrow> rat \<Rightarrow> rat
    \<Rightarrow> (py_error + unit) \<times> PatientVitalsSimulationEngine" where
  "set_custom_vital_sign_range e vital_type minimum_value maximum_value =
     (case set_custom_vital_range (self_vital_signs_generator e) vital_type
             minimum_value maximum_value of
        (res, gen') \<Rightarrow> (res, e\<lparr>self_vital_signs_generator := gen'\<rparr>))"

fun notify_data_broadcasting_callbacks ::
  "(callback_function \<Rightarrow> PatientVitalSigns \<Rightarrow> callback_outcome) \<Rightarrow> callback_function list
    \<Rightarrow> PatientVitalSigns \<Rightarrow> engine_world \<Rightarrow> engine_world" where
  "notify_data_broadcasting_callbacks behaviour [] vital_signs w = w"
| "notify_data_broadcasting_callbacks behaviour (cb # cbs) vital_signs w =
     (let w1 = w\<lparr>ew_calls := ew_calls w @ [(cb, vital_signs)]\<rparr>
      in case behaviour cb vital_signs of
           Returned \<Rightarrow> notify_data_broadcasting_callbacks behaviour cbs vital_signs w1
         | Raised exception \<Rightarrow>
             notify_data_broadcasting_callbacks behaviour cbs vital_signs
               (w1\<lparr>ew_printed := ew_printed w1 @
                      [''Error in data broadcasting callback: '' @ exception]\<rparr>))"

definition generate_single_vital_signs_reading ::
  "(callback_function \<Rightarrow> PatientVitalSigns \<Rightarrow> callback_outcome)
    \<Rightarrow> PatientVitalsSimulationEngine \<Rightarrow> engine_world
    \<Rightarrow> PatientVitalSigns \<times> PatientVitalsSimulationEngine \<times> engine_world" where
  "generate_single_vital_signs_reading behaviour e w =
     (let gen = self_vital_signs_generator e; mode = self_current_simulation_mode e
      in case generate_vital_sign_value gen HEART_RATE mode (ew_random w) of
        (heart_rate, rs1) \<Rightarrow>
      case generate_vital_sign_value gen BLOOD_PRESSURE_SYSTOLIC mode rs1 of
        (bp_systolic, rs2) \<Rightarrow>
      case generate_vital_sign_value gen BLOOD_PRESSURE_DIASTOLIC mode rs2 of
        (bp_diastolic, rs3) \<Rightarrow>
      case generate_vital_sign_value gen OXYGEN_SATURATION mode rs3 of
        (oxygen_saturation, rs4) \<Rightarrow>
      case generate_vital_sign_value gen BODY_TEMPERATURE mode rs4 of
        (body_temperature, rs5) \<Rightarrow>
      case generate_vital_sign_value gen RESPIRATORY_RATE mode rs5 of
        (respiratory_rate, rs6) \<Rightarrow>
        (let vital_signs = create_current_timestamp_reading
               (py_int heart_rate) (py_int bp_systolic) (py_int bp_diastolic)
               (py_int oxygen_saturation) body_temperature (py_int respiratory_rate)
               mode (self_monitoring_device_identifier e)
               (self_target_patient_identifier e) (ew_now w);
             e' = e\<lparr>self_most_recent_vital_signs := Some vital_signs\<rparr>;
             w' = notify_data_broadcasting_callbacks behaviour
                    (self_data_broadcasting_callbacks e') vital_signs
                    (w\<lparr>ew_random := rs6\<rparr>)
         in (vital_signs, e', w')))"

definition start_continuous_vital_signs_simulation ::
  "PatientVitalsSimulationEngine \<Rightarrow> bool \<times> PatientVitalsSimulationEngine" where
  "start_continuous_vital_signs_simulation e =
     (if self_is_continuous_simulation_running e then (False, e)
      else (True, e\<lparr>self_is_continuous_simulation_running := True,
                     self_simulation_thread := Some (Thread ''VitalSignsSimulationThread'')\<rparr>))"

definition stop_continuous_vital_signs_simulation ::
  "PatientVitalsSimulationEngine \<Rightarrow> bool \<times> PatientVitalsSimulationEngine" where
  "stop_continuous_vital_signs_simulation e =
     (if \<not> self_is_continuous_simulation_running e then (False, e)
      else (True, e\<lparr>self_is_continuous_simulation_running := False\<rparr>))"

definition is_simulation_currently_running :: "PatientVitalsSimulationEngine \<Rightarrow> bool" where
  "is_simulation_currently_running e = self_is_continuous_simulation_running e"

subsection \<open>data\_broadcaster.py\<close>

text \<open>\<open>str\<close> of a Python integer, as the f-strings of the broadcaster format it.\<close>

definition digit_char :: "nat \<Rightarrow> char" where
  "digit_char d = ''0123456789'' ! d"

fun str_nat :: "nat \<Rightarrow> string" where
  "str_nat n = (if n < 10 then [digit_char n] else str_nat (n div 10) @ [digit_char (n mod 10)])"

declare str_nat.simps [simp del]

definition str_int :: "int \<Rightarrow> string" where
  "str_int i = (if i < 0 then ''-'' @ str_nat (nat (- i)) else str_nat (nat i))"

text \<open>
  What one \<open>requests.post\<close> call does: it returns a response (status code and
  text), or it raises. The raise is classified by the first \<open>except\<close> clause of
  the sender that matches it: \<open>Timeout\<close>, \<open>ConnectionError\<close>, another
  \<open>RequestException\<close> (with its \<open>str\<close>), or any other \<open>Exception\<close> (with
  its \<open>str\<close>).
\<close>

datatype post_outcome =
    Response int string
  | Timeout
  | ConnectionError
  | RequestException string
  | OtherException string

record http_request =
  req_url :: string
  req_json :: "(string \<times> json) list"
  req_timeout :: int

text \<open>
  The network as the broadcaster sees it: the outcome of the \<open>n\<close>-th POST made,
  the requests made so far, the delays slept so far, and the clock.
\<close>

record network_world =
  nw_outcomes :: "nat \<Rightarrow> post_outcome"
  nw_posts :: "http_request list"
  nw_sleeps :: "int list"
  nw_now :: string

record VitalSignsDataBroadcaster =
  self_rule_engine_endpoint_url :: string
  self_ui_endpoint_url :: string
  self_is_rule_engine_broadcasting_enabled :: bool
  self_is_ui_broadcasting_enabled :: bool

definition new_broadcaster :: VitalSignsDataBroadcaster where
  "new_broadcaster =
     \<lparr>self_rule_engine_endpoint_url = RULE_ENGINE_BASE_URL @ RULE_ENGINE_VITALS_ENDPOINT,
      self_ui_endpoint_url = UI_HTTP_ENDPOINT,
      self_is_rule_engine_broadcasting_enabled = ENABLE_RULE_ENGINE_BROADCASTING,
      self_is_ui_broadcasting_enabled = ENABLE_UI_BROADCASTING\<rparr>"

definition py_range :: "int \<Rightarrow> int list" where
  "py_range n = map int [0..<nat n]"

definition str_optional :: "string option \<Rightarrow> string" where
  "str_optional x = (case x of None \<Rightarrow> ''None'' | Some s \<Rightarrow> s)"

text \<open>
  The body of the \<open>for attempt_number in range(max_retry_attempts)\<close> loop of
  \<open>_send_http_post_request_with_retries\<close>, over the attempt numbers still to
  run, followed by the statement after the loop.
\<close>

fun send_attempts ::
  "string \<Rightarrow> string \<Rightarrow> (string \<times> json) list \<Rightarrow> int \<Rightarrow> int \<Rightarrow> int list \<Rightarrow> string option
    \<Rightarrow> network_world \<Rightarrow> BroadcastingResult \<times> network_world" where
  "send_attempts dest endpoint_url payload_data timeout_seconds max_retry_attempts []
       last_exception w =
     (\<lparr>destination_name = dest,
       was_successful = False,
       error_message = Some (''Failed after '' @ str_int max_retry_attempts @
                             '' attempts. Last error: '' @ str_optional last_exception),
       response_status_code = None,
       transmission_timestamp = Some (nw_now w)\<rparr>, w)"
| "send_attempts dest endpoint_url payload_data timeout_seconds max_retry_attempts
       (attempt_number # rest) last_exception w =
     (let outcome = nw_outcomes w (length (nw_posts w));
          w1 = w\<lparr>nw_posts := nw_posts w @
                  [\<lparr>req_url = endpoint_url, req_json = payload_data,
                    req_timeout = timeout_seconds\<rparr>]\<rparr>;
          w2 = (if attempt_number < max_retry_attempts - 1
                then w1\<lparr>nw_sleeps := nw_sleeps w1 @ [BROADCASTING_RETRY_DELAY_SECONDS]\<rparr>
                else w1)
      in case outcome of
           Response status_code text \<Rightarrow>
             if status_code \<in> {200, 201, 202}
             then (\<lparr>destination_name = dest,
                    was_successful = True,
                    error_message = None,
                    response_status_code = Some status_code,
                    transmission_timestamp = Some (nw_now w1)\<rparr>, w1)
             else (\<lparr>destination_name = dest,
                    was_successful = False,
                    error_message = Some (''HTTP '' @ str_int status_code @ '': '' @ text),
                    response_status_code = Some status_code,
                    transmission_timestamp = Some (nw_now w1)\<rparr>, w1)
         | Timeout \<Rightarrow>
             send_attempts dest endpoint_url payload_data timeout_seconds max_retry_attempts rest
               (Some (''Request timeout after '' @ str_int timeout_seconds @ '' seconds'')) w2
         | ConnectionError \<Rightarrow>
             send_attempts dest endpoint_url payload_data timeout_seconds max_retry_attempts rest
               (Some (''Connection error to '' @ endpoint_url)) w2
         | RequestException e \<Rightarrow>
             send_attempts dest endpoint_url payload_data timeout_seconds max_retry_attempts rest
               (Some (''Request error: '' @ e)) w2
         | OtherException e \<Rightarrow>
             send_attempts dest endpoint_url payload_data timeout_seconds max_retry_attempts rest
               (Some (''Unexpected error: '' @ e)) w2)"

definition send_http_post_request_with_retries ::
  "string \<Rightarrow> string \<Rightarrow> (string \<times> json) list \<Rightarrow> int \<Rightarrow> int \<Rightarrow> network_world
    \<Rightarrow> BroadcastingResult \<times> network_world" where
  "send_http_post_request_with_retries dest endpoint_url payload_data timeout_seconds
       max_retry_attempts w =
     send_attempts dest endpoint_url payload_data timeout_seconds max_retry_attempts
       (py_range max_retry_attempts) None w"

definition broadcast_to_rule_engine ::
  "VitalSignsDataBroadcaster \<Rightarrow> PatientVitalSigns \<Rightarrow> network_world
    \<Rightarrow> BroadcastingResult \<times> network_world" where
  "broadcast_to_rule_engine b vital_signs_data w =
     send_http_post_request_with_retries ''Rule Engine'' (self_rule_engine_endpoint_url b)
       (to_json_serializable_dict vital_signs_data)
       RULE_ENGINE_CONNECTION_TIMEOUT_SECONDS RULE_ENGINE_REQUEST_RETRY_COUNT w"

definition broadcast_to_user_interface ::
  "VitalSignsDataBroadcaster \<Rightarrow> PatientVitalSigns \<Rightarrow> network_world
    \<Rightarrow> BroadcastingResult \<times> network_world" where
  "broadcast_to_user_interface b vital_signs_data w =
     send_http_post_request_with_retries ''User Interface'' (self_ui_endpoint_url b)
       (to_json_serializable_dict vital_signs_data)
       UI_CONNECTION_TIMEOUT_SECONDS MAX_BROADCASTING_RETRIES w"

definition broadcast_vital_signs_to_all_destinations ::
  "VitalSignsDataBroadcaster \<Rightarrow> PatientVitalSigns \<Rightarrow> network_world
    \<Rightarrow> BroadcastingResult list \<times> network_world" where
  "broadcast_vital_signs_to_all_destinations b vital_signs_data w =
     (case (if self_is_rule_engine_broadcasting_enabled b
            then (case broadcast_to_rule_engine b vital_signs_data w of
                    (rule_engine_result, w') \<Rightarrow> ([] @ [rule_engine_result], w'))
            else ([], w)) of
        (broadcasting_results, w1) \<Rightarrow>
          if self_is_ui_broadcasting_enabled b
          then (case broadcast_to_user_interface b vital_signs_data w1 of
                  (ui_result, w') \<Rightarrow> (broadcasting_results @ [ui_result], w'))
          else (broadcasting_results, w1))"

definition set_rule_engine_endpoint ::
  "VitalSignsDataBroadcaster \<Rightarrow> string \<Rightarrow> string \<Rightarrow> VitalSignsDataBroadcaster" where
  "set_rule_engine_endpoint b base_url endpoint_path =
     b\<lparr>self_rule_engine_endpoint_url := base_url @ endpoint_path\<rparr>"

definition enable_rule_engine_broadcasting ::
  "VitalSignsDataBroadcaster \<Rightarrow> bool \<Rightarrow> VitalSignsDataBroadcaster" where
  "enable_rule_engine_broadcasting b is_enabled =
     b\<lparr>self_is_rule_engine_broadcasting_enabled := is_enabled\<rparr>"

definition enable_ui_broadcasting ::
  "VitalSignsDataBroadcaster \<Rightarrow> bool \<Rightarrow> VitalSignsDataBroadcaster" where
  "enable_ui_broadcasting b is_enabled = b\<lparr>self_is_ui_broadcasting_enabled := is_enabled\<rparr>"

subsection \<open>rule\_engine\_client.py\<close>

record RuleEngineIntegrationClient =
  self_data_broadcaster :: VitalSignsDataBroadcaster

text \<open>
  \<open>dict.update\<close>: a key already present keeps its place and takes the new value,
  a new key goes to the end.
\<close>

fun dict_set :: "string \<Rightarrow> json \<Rightarrow> (string \<times> json) list \<Rightarrow> (string \<times> json) list" where
  "dict_set k v [] = [(k, v)]"
| "dict_set k v ((k', v') # d) = (if k = k' then (k, v) # d else (k', v') # dict_set k v d)"

fun dict_update :: "(string \<times> json) list \<Rightarrow> (string \<times> json) list \<Rightarrow> (string \<times> json) list" where
  "dict_update d [] = d"
| "dict_update d ((k, v) # u) = dict_update (dict_set k v d) u"

definition format_vital_signs_for_rule_engine ::
  "PatientVitalSigns \<Rightarrow> string \<Rightarrow> (string \<times> json) list" where
  "format_vital_signs_for_rule_engine vital_signs now =
     [(''deviceId'', JStr (monitoring_device_identifier vital_signs)),
      (''patientId'', JStr (patient_identifier vital_signs)),
      (''timestamp'', JStr (timestamp_iso_format vital_signs)),
      (''readings'', JObj
         [(''heartRate'', JInt (heart_rate_bpm vital_signs)),
          (''bloodPressure'', JObj
             [(''systolic'', JInt (blood_pressure_systolic_mmhg vital_signs)),
              (''diastolic'', JInt (blood_pressure_diastolic_mmhg vital_signs))]),
          (''oxygenSaturation'', JInt (oxygen_saturation_percentage vital_signs)),
          (''bodyTemperature'', JNum (body_temperature_celsius vital_signs)),
          (''respiratoryRate'', JInt (respiratory_rate_per_minute vital_signs))]),
      (''metadata'', JObj
         [(''simulationMode'', JStr (simulation_mode_used vital_signs)),
          (''generatedAt'', JStr now),
          (''dataSource'', JStr ''BioHarness_Simulator'')])]"

definition determine_urgency_level :: "PatientVitalSigns \<Rightarrow> bool" where
  "determine_urgency_level vital_signs =
     (if heart_rate_bpm vital_signs < 40 \<or> heart_rate_bpm vital_signs > 150 then True
      else if blood_pressure_systolic_mmhg vital_signs < 70
              \<or> blood_pressure_systolic_mmhg vital_signs > 180 then True
      else if oxygen_saturation_percentage vital_signs < 85 then True
      else if body_temperature_celsius vital_signs < 35
              \<or> body_temperature_celsius vital_signs > 40 then True
      else if respiratory_rate_per_minute vital_signs < 8
              \<or> respiratory_rate_per_minute vital_signs > 30 then True
      else if simulation_mode_used vital_signs = ''emergency'' then True
      else False)"

text \<open>
  The dictionary that \<open>submit_vital_signs_for_rule_evaluation\<close> builds in its local
  variable \<open>rule_engine_payload\<close>. \<open>x or d\<close> is \<open>d\<close> when \<open>x\<close> is \<open>None\<close> or zero.
\<close>

definition rule_engine_payload :: "PatientVitalSigns \<Rightarrow> string \<Rightarrow> (string \<times> json) list" where
  "rule_engine_payload patient_vital_signs now =
     dict_update (format_vital_signs_for_rule_engine patient_vital_signs now)
       [(''submission_source'', JStr ''BioHarness_Vitals_Simulator''),
        (''requires_immediate_processing'', JBool (determine_urgency_level patient_vital_signs)),
        (''data_quality_indicators'', JObj
           [(''signal_strength'',
               JInt (case signal_strength_indicator patient_vital_signs of
                       None \<Rightarrow> 100 | Some n \<Rightarrow> if n = 0 then 100 else n)),
            (''data_completeness'', JInt 100),
            (''measurement_confidence'',
               JNum (case data_quality_score patient_vital_signs of
                       None \<Rightarrow> 95 / 100 | Some q \<Rightarrow> if q = 0 then 95 / 100 else q))])]"

text \<open>
  The method binds the dictionary above to a local variable and then calls the
  broadcaster with the reading itself.
\<close>

definition submit_vital_signs_for_rule_evaluation ::
  "RuleEngineIntegrationClient \<Rightarrow> PatientVitalSigns \<Rightarrow> network_world
    \<Rightarrow> BroadcastingResult \<times> network_world" where
  "submit_vital_signs_for_rule_evaluation client patient_vital_signs w =
     (let payload = rule_engine_payload patient_vital_signs (nw_now w)
      in broadcast_to_rule_engine (self_data_broadcaster client) patient_vital_signs w)"

definition dict_keys :: "(string \<times> json) list \<Rightarrow> string list" where
  "dict_keys d = map fst d"

subsection \<open>Outcomes of a POST, as the sender classifies them\<close>

text \<open>
  An outcome that the sender retries, and the text it binds to \<open>last_exception\<close>
  in the \<open>except\<close> clause that handles the outcome.
\<close>

fun is_network_failure :: "post_outcome \<Rightarrow> bool" where
  "is_network_failure (Response status_code text) = False"
| "is_network_failure Timeout = True"
| "is_network_failure ConnectionError = True"
| "is_network_failure (RequestException e) = True"
| "is_network_failure (OtherException e) = True"

fun last_exception_of :: "string \<Rightarrow> int \<Rightarrow> post_outcome \<Rightarrow> string option" where
  "last_exception_of endpoint_url timeout_seconds (Response status_code text) = None"
| "last_exception_of endpoint_url timeout_seconds Timeout =
     Some (''Request timeout after '' @ str_int timeout_seconds @ '' seconds'')"
| "last_exception_of endpoint_url timeout_seconds ConnectionError =
     Some (''Connection error to '' @ endpoint_url)"
| "last_exception_of endpoint_url timeout_seconds (RequestException e) =
     Some (''Request error: '' @ e)"
| "last_exception_of endpoint_url timeout_seconds (OtherException e) =
     Some (''Unexpected error: '' @ e)"

subsection \<open>Concrete inputs\<close>

definition sample_reading :: PatientVitalSigns where
  "sample_reading =
     \<lparr>timestamp_iso_format = ''2024-01-01T00:00:00Z'',
      heart_rate_bpm = 72,
      blood_pressure_systolic_mmhg = 120,
      blood_pressure_diastolic_mmhg = 80,
      oxygen_saturation_percentage = 98,
      body_temperature_celsius = 366 / 10,
      respiratory_rate_per_minute = 16,
      simulation_mode_used = ''normal'',
      monitoring_device_identifier = ''BioHarness_Sim_001'',
      patient_identifier = ''patient_001'',
      data_quality_score = None,
      signal_strength_indicator = None\<rparr>"

definition timeout_then_ok :: "nat \<Rightarrow> post_outcome" where
  "timeout_then_ok n = (if n = 0 then Timeout else Response 200 ''ok'')"

definition always_refused :: "nat \<Rightarrow> post_outcome" where
  "always_refused n = ConnectionError"

definition always_status :: "int \<Rightarrow> nat \<Rightarrow> post_outcome" where
  "always_status status_code n = Response status_code ''Internal Server Error''"

definition new_network_world :: "(nat \<Rightarrow> post_outcome) \<Rightarrow> network_world" where
  "new_network_world outcomes =
     \<lparr>nw_outcomes = outcomes, nw_posts = [], nw_sleeps = [],
      nw_now = ''2024-01-01T00:00:01''\<rparr>"

definition new_engine_world :: "(nat \<Rightarrow> rat) \<Rightarrow> engine_world" where
  "new_engine_world source =
     \<lparr>ew_random = \<lparr>rs_source = source, rs_consumed = 0\<rparr>,
      ew_now = ''2024-01-01T00:00:00'', ew_calls = [], ew_printed = []\<rparr>"

definition second_callback_fails ::
  "callback_function \<Rightarrow> PatientVitalSigns \<Rightarrow> callback_outcome" where
  "second_callback_fails cb vital_signs = (if cb = 2 then Raised ''sink down'' else Returned)"

definition steady_random_state :: "rat \<Rightarrow> random_state" where
  "steady_random_state c = \<lparr>rs_source = constant_source c, rs_consumed = 0\<rparr>"

definition new_rule_engine_client :: RuleEngineIntegrationClient where
  "new_rule_engine_client = \<lparr>self_data_broadcaster = new_broadcaster\<rparr>"

definition engine_with_three_callbacks :: PatientVitalsSimulationEngine where
  "engine_with_three_callbacks =
     add_data_broadcasting_callback
       (add_data_broadcasting_callback (add_data_broadcasting_callback new_engine 1) 2) 3"

definition refused_thrice_then_ok :: "nat \<Rightarrow> post_outcome" where
  "refused_thrice_then_ok n = (if n < 3 then ConnectionError else Response 200 ''ok'')"

definition ui_only_broadcaster :: VitalSignsDataBroadcaster where
  "ui_only_broadcaster = enable_rule_engine_broadcasting new_broadcaster False"

definition sample_generated_reading :: PatientVitalSigns where
  "sample_generated_reading =
     \<lparr>timestamp_iso_format = ''2024-01-01T00:00:00Z'',
      heart_rate_bpm = 80,
      blood_pressure_systolic_mmhg = 115,
      blood_pressure_diastolic_mmhg = 75,
      oxygen_saturation_percentage = 97,
      body_temperature_celsius = 366 / 10,
      respiratory_rate_per_minute = 16,
      simulation_mode_used = ''normal'',
      monitoring_device_identifier = ''BioHarness_Sim_001'',
      patient_identifier = ''patient_001'',
      data_quality_score = None,
      signal_strength_indicator = None\<rparr>"

section \<open>Properties\<close>

subsection \<open>Custom ranges\<close>

text \<open>
  C5. For every vital type and every pair with \<open>min \<ge> max\<close>, setting a custom
  override fails with the validation error and leaves the generator, hence the
  override table and any override set before, unchanged. For \<open>min < max\<close> the
  override is stored under that vital type only, and the range lookup then returns
  it in every mode.
\<close>

theorem set_custom_vital_range_validation:
  "(maximum_value \<le> minimum_value \<longrightarrow>
      (\<exists>msg. fst (set_custom_vital_range gen vt minimum_value maximum_value) = Inl (ValueError msg))
      \<and> snd (set_custom_vital_range gen vt minimum_value maximum_value) = gen)
   \<and> (minimum_value < maximum_value \<longrightarrow>
      fst (set_custom_vital_range gen vt minimum_value maximum_value) = Inr ()
      \<and> custom_vital_ranges (snd (set_custom_vital_range gen vt minimum_value maximum_value)) vt
          = Some (minimum_value, maximum_value)
      \<and> (\<forall>other. other \<noteq> vt \<longrightarrow>
            custom_vital_ranges (snd (set_custom_vital_range gen vt minimum_value maximum_value)) other
              = custom_vital_ranges gen other)
      \<and> (\<forall>mode. get_vital_range_for_mode
                    (snd (set_custom_vital_range gen vt minimum_value maximum_value)) vt mode
                  = (minimum_value, maximum_value)))"
  by (simp add: set_custom_vital_range_def get_vital_range_for_mode_def)

theorem set_custom_vital_range_validation_witness:
  "snd (set_custom_vital_range (snd (set_custom_vital_range new_generator HEART_RATE 50 60))
          HEART_RATE 70 70)
     = snd (set_custom_vital_range new_generator HEART_RATE 50 60)
   \<and> get_vital_range_for_mode
         (snd (set_custom_vital_range (snd (set_custom_vital_range new_generator HEART_RATE 50 60))
                 HEART_RATE 70 70)) HEART_RATE EMERGENCY_CRITICAL_PATIENT = (50, 60)
   \<and> get_vital_range_for_mode (snd (set_custom_vital_range new_generator HEART_RATE 50 60))
         HEART_RATE EMERGENCY_CRITICAL_PATIENT = (50, 60)"
  using set_custom_vital_range_validation
          [where minimum_value = 70 and maximum_value = 70 and vt = HEART_RATE
             and gen = "snd (set_custom_vital_range new_generator HEART_RATE 50 60)"]
        set_custom_vital_range_validation
          [where minimum_value = 50 and maximum_value = 60 and vt = HEART_RATE
             and gen = new_generator]
  by simp

subsection \<open>Starting and stopping\<close>

text \<open>
  C6. \<open>start\<close> returns true exactly when the engine was idle and leaves it running;
  on a running engine it returns false and changes nothing, so a second \<open>start\<close>
  returns false. \<open>stop\<close> returns true exactly when the engine was running and leaves
  it idle; on an idle engine it returns false and changes nothing. A new engine is
  idle.
\<close>

theorem start_stop_state_machine:
  "fst (start_continuous_vital_signs_simulation e) = (\<not> is_simulation_currently_running e)
   \<and> is_simulation_currently_running (snd (start_continuous_vital_signs_simulation e))
   \<and> (is_simulation_currently_running e \<longrightarrow> snd (start_continuous_vital_signs_simulation e) = e)
   \<and> fst (start_continuous_vital_signs_simulation
             (snd (start_continuous_vital_signs_simulation e))) = False
   \<and> fst (stop_continuous_vital_signs_simulation e) = is_simulation_currently_running e
   \<and> \<not> is_simulation_currently_running (snd (stop_continuous_vital_signs_simulation e))
   \<and> (\<not> is_simulation_currently_running e \<longrightarrow> snd (stop_continuous_vital_signs_simulation e) = e)
   \<and> \<not> is_simulation_currently_running new_engine"
  by (simp add: start_continuous_vital_signs_simulation_def
        stop_continuous_vital_signs_simulation_def is_simulation_currently_running_def
        new_engine_def)

theorem start_stop_state_machine_witness:
  "fst (start_continuous_vital_signs_simulation new_engine) = True
   \<and> fst (start_continuous_vital_signs_simulation
            (snd (start_continuous_vital_signs_simulation new_engine))) = False
   \<and> snd (start_continuous_vital_signs_simulation
            (snd (start_continuous_vital_signs_simulation new_engine)))
       = snd (start_continuous_vital_signs_simulation new_engine)
   \<and> fst (stop_continuous_vital_signs_simulation new_engine) = False
   \<and> snd (stop_continuous_vital_signs_simulation new_engine) = new_engine
   \<and> fst (stop_continuous_vital_signs_simulation
            (snd (start_continuous_vital_signs_simulation new_engine))) = True"
  using start_stop_state_machine [of new_engine]
        start_stop_state_machine [of "snd (start_continuous_vital_signs_simulation new_engine)"]
  by simp

subsection \<open>Urgency of a reading\<close>

text \<open>
  C8. For every reading, the flag \<open>requires_immediate_processing\<close> that the rule
  engine client computes is true if and only if the heart rate is below 40 or above
  150, or the systolic pressure is below 70 or above 180, or the oxygen saturation
  is below 85, or the temperature is below 35.0 or above 40.0, or the respiratory
  rate is below 8 or above 30, or the mode of the reading is emergency. It is the
  value stored under that key in the dictionary the client builds.
\<close>

theorem determine_urgency_level_thresholds:
  "determine_urgency_level vs =
     (heart_rate_bpm vs < 40 \<or> heart_rate_bpm vs > 150
      \<or> blood_pressure_systolic_mmhg vs < 70 \<or> blood_pressure_systolic_mmhg vs > 180
      \<or> oxygen_saturation_percentage vs < 85
      \<or> body_temperature_celsius vs < 35 \<or> body_temperature_celsius vs > 40
      \<or> respiratory_rate_per_minute vs < 8 \<or> respiratory_rate_per_minute vs > 30
      \<or> simulation_mode_used vs = ''emergency'')
   \<and> map_of (rule_engine_payload vs now) ''requires_immediate_processing''
       = Some (JBool (determine_urgency_level vs))"
  by (simp add: determine_urgency_level_def rule_engine_payload_def
        format_vital_signs_for_rule_engine_def)

theorem determine_urgency_level_thresholds_witness:
  "\<not> determine_urgency_level sample_reading
   \<and> determine_urgency_level (sample_reading\<lparr>oxygen_saturation_percentage := 84\<rparr>)
   \<and> determine_urgency_level (sample_reading\<lparr>simulation_mode_used := ''emergency''\<rparr>)"
  using determine_urgency_level_thresholds [of sample_reading]
        determine_urgency_level_thresholds [of "sample_reading\<lparr>oxygen_saturation_percentage := 84\<rparr>"]
        determine_urgency_level_thresholds [of "sample_reading\<lparr>simulation_mode_used := ''emergency''\<rparr>"]
  by (simp add: sample_reading_def)

subsection \<open>The retry loop of the sender\<close>

lemma send_attempts_failed_prefix:
  "\<forall>i<length as1. is_network_failure (nw_outcomes w (length (nw_posts w) + i)) \<Longrightarrow>
   send_attempts d u p t mx (as1 @ as2) prev w =
   send_attempts d u p t mx as2
     (if as1 = [] then prev
      else last_exception_of u t (nw_outcomes w (length (nw_posts w) + length as1 - 1)))
     (w\<lparr>nw_posts := nw_posts w @
          replicate (length as1) \<lparr>req_url = u, req_json = p, req_timeout = t\<rparr>,
        nw_sleeps := nw_sleeps w @
          replicate (length (filter (\<lambda>a. a < mx - 1) as1)) BROADCASTING_RETRY_DELAY_SECONDS\<rparr>)"
proof (induction as1 arbitrary: w prev)
  case Nil
  then show ?case by simp
next
  case (Cons a as1)
  let ?r = "\<lparr>req_url = u, req_json = p, req_timeout = t\<rparr>"
  let ?w1 = "w\<lparr>nw_posts := nw_posts w @ [?r]\<rparr>"
  let ?w2 = "if a < mx - 1
             then ?w1\<lparr>nw_sleeps := nw_sleeps ?w1 @ [BROADCASTING_RETRY_DELAY_SECONDS]\<rparr>
             else ?w1"
  from Cons.prems have first: "is_network_failure (nw_outcomes w (length (nw_posts w)))"
    by (metis add.right_neutral length_greater_0_conv list.distinct(1))
  have step: "send_attempts d u p t mx ((a # as1) @ as2) prev w =
      send_attempts d u p t mx (as1 @ as2)
        (last_exception_of u t (nw_outcomes w (length (nw_posts w)))) ?w2"
    using first by (cases "nw_outcomes w (length (nw_posts w))") (simp_all add: Let_def)
  have rest: "\<forall>i<length as1. is_network_failure (nw_outcomes ?w2 (length (nw_posts ?w2) + i))"
    using Cons.prems by auto
  show ?case
    unfolding step Cons.IH [OF rest]
    by (cases "as1 = []") (auto simp: replicate_append_same)
qed


lemma filter_less_range:
  "length (filter (\<lambda>a. a < c) (map int [0..<k])) = min k (nat c)"
  by (induction k) auto

lemma send_attempts_frame:
  "\<exists>m\<le>length as. (as \<noteq> [] \<longrightarrow> 0 < m)
     \<and> nw_posts (snd (send_attempts d u p t mx as prev w)) =
         nw_posts w @ replicate m \<lparr>req_url = u, req_json = p, req_timeout = t\<rparr>
     \<and> nw_outcomes (snd (send_attempts d u p t mx as prev w)) = nw_outcomes w
     \<and> nw_now (snd (send_attempts d u p t mx as prev w)) = nw_now w
     \<and> destination_name (fst (send_attempts d u p t mx as prev w)) = d"
proof (induction as arbitrary: w prev)
  case Nil
  then show ?case by simp
next
  case (Cons a as)
  let ?r = "\<lparr>req_url = u, req_json = p, req_timeout = t\<rparr>"
  let ?w1 = "w\<lparr>nw_posts := nw_posts w @ [?r]\<rparr>"
  let ?w2 = "if a < mx - 1
             then ?w1\<lparr>nw_sleeps := nw_sleeps ?w1 @ [BROADCASTING_RETRY_DELAY_SECONDS]\<rparr>
             else ?w1"
  show ?case
  proof (cases "is_network_failure (nw_outcomes w (length (nw_posts w)))")
    case False
    then obtain sc body where "nw_outcomes w (length (nw_posts w)) = Response sc body"
      by (cases "nw_outcomes w (length (nw_posts w))") auto
    then have "nw_posts (snd (send_attempts d u p t mx (a # as) prev w)) = nw_posts w @ replicate 1 ?r"
      and "nw_outcomes (snd (send_attempts d u p t mx (a # as) prev w)) = nw_outcomes w"
      and "nw_now (snd (send_attempts d u p t mx (a # as) prev w)) = nw_now w"
      and "destination_name (fst (send_attempts d u p t mx (a # as) prev w)) = d"
      by (simp_all add: Let_def)
    then show ?thesis
      by (intro exI [of _ 1]) simp
  next
    case True
    then have step: "send_attempts d u p t mx (a # as) prev w =
        send_attempts d u p t mx as
          (last_exception_of u t (nw_outcomes w (length (nw_posts w)))) ?w2"
      by (cases "nw_outcomes w (length (nw_posts w))") (simp_all add: Let_def)
    from Cons.IH [of "last_exception_of u t (nw_outcomes w (length (nw_posts w)))" ?w2]
    obtain m where m: "m \<le> length as"
      "nw_posts (snd (send_attempts d u p t mx (a # as) prev w)) = nw_posts ?w2 @ replicate m ?r"
      "nw_outcomes (snd (send_attempts d u p t mx (a # as) prev w)) = nw_outcomes ?w2"
      "nw_now (snd (send_attempts d u p t mx (a # as) prev w)) = nw_now ?w2"
      "destination_name (fst (send_attempts d u p t mx (a # as) prev w)) = d"
      unfolding step by blast
    show ?thesis
      using m by (intro exI [of _ "Suc m"]) auto
  qed
qed


lemma py_range_split:
  "int k < mx \<Longrightarrow> py_range mx = map int [0..<k] @ int k # map int [Suc k..<nat mx]"
proof -
  assume "int k < mx"
  then have "k < nat mx" by linarith
  then have "[0..<nat mx] = [0..<k] @ [k..<nat mx]" and "[k..<nat mx] = k # [Suc k..<nat mx]"
    using upt_add_eq_append [of 0 k "nat mx - k"] by (simp_all add: upt_conv_Cons)
  then show ?thesis by (simp add: py_range_def)
qed

lemma send_answered:
  assumes failures: "\<forall>i<k. is_network_failure (nw_outcomes w (length (nw_posts w) + i))"
    and budget: "int k < mx"
    and answer: "nw_outcomes w (length (nw_posts w) + k) = Response sc body"
  shows "fst (send_http_post_request_with_retries d u p t mx w) =
           (if sc \<in> {200, 201, 202}
            then \<lparr>destination_name = d, was_successful = True, error_message = None,
                  response_status_code = Some sc, transmission_timestamp = Some (nw_now w)\<rparr>
            else \<lparr>destination_name = d, was_successful = False,
                  error_message = Some (''HTTP '' @ str_int sc @ '': '' @ body),
                  response_status_code = Some sc, transmission_timestamp = Some (nw_now w)\<rparr>)"
    and "nw_posts (snd (send_http_post_request_with_retries d u p t mx w)) =
           nw_posts w @ replicate (Suc k) \<lparr>req_url = u, req_json = p, req_timeout = t\<rparr>"
    and "nw_sleeps (snd (send_http_post_request_with_retries d u p t mx w)) =
           nw_sleeps w @ replicate k BROADCASTING_RETRY_DELAY_SECONDS"
proof -
  let ?r = "\<lparr>req_url = u, req_json = p, req_timeout = t\<rparr>"
  let ?w' = "w\<lparr>nw_posts := nw_posts w @ replicate k ?r,
               nw_sleeps := nw_sleeps w @ replicate k BROADCASTING_RETRY_DELAY_SECONDS\<rparr>"
  have len: "\<forall>i<length (map int [0..<k]).
      is_network_failure (nw_outcomes w (length (nw_posts w) + i))"
    using failures by simp
  have "length (filter (\<lambda>a. a < mx - 1) (map int [0..<k])) = min k (nat (mx - 1))"
    by (rule filter_less_range)
  then have cnt: "length (filter (\<lambda>a. a < mx - 1) (map int [0..<k])) = k"
    using budget by auto
  have run: "send_http_post_request_with_retries d u p t mx w =
      send_attempts d u p t mx (int k # map int [Suc k..<nat mx])
        (if map int [0..<k] = [] then None
         else last_exception_of u t
                (nw_outcomes w (length (nw_posts w) + length (map int [0..<k]) - 1))) ?w'"
    unfolding send_http_post_request_with_retries_def py_range_split [OF budget]
      send_attempts_failed_prefix [OF len] cnt
    by simp
  have here: "nw_outcomes ?w' (length (nw_posts ?w')) = Response sc body"
    using answer by simp
  show "fst (send_http_post_request_with_retries d u p t mx w) =
           (if sc \<in> {200, 201, 202}
            then \<lparr>destination_name = d, was_successful = True, error_message = None,
                  response_status_code = Some sc, transmission_timestamp = Some (nw_now w)\<rparr>
            else \<lparr>destination_name = d, was_successful = False,
                  error_message = Some (''HTTP '' @ str_int sc @ '': '' @ body),
                  response_status_code = Some sc, transmission_timestamp = Some (nw_now w)\<rparr>)"
    unfolding run using here by (simp add: Let_def)
  show "nw_posts (snd (send_http_post_request_with_retries d u p t mx w)) =
           nw_posts w @ replicate (Suc k) ?r"
    unfolding run using here by (simp add: Let_def replicate_append_same)
  show "nw_sleeps (snd (send_http_post_request_with_retries d u p t mx w)) =
           nw_sleeps w @ replicate k BROADCASTING_RETRY_DELAY_SECONDS"
    unfolding run using here by (simp add: Let_def)
qed

lemma send_exhausted:
  assumes failures: "\<forall>i<k. is_network_failure (nw_outcomes w (length (nw_posts w) + i))"
    and budget: "int k = mx"
  shows "send_http_post_request_with_retries d u p t mx w =
           (\<lparr>destination_name = d, was_successful = False,
             error_message = Some (''Failed after '' @ str_int mx @ '' attempts. Last error: '' @
                str_optional (if k = 0 then None
                   else last_exception_of u t (nw_outcomes w (length (nw_posts w) + k - 1)))),
             response_status_code = None, transmission_timestamp = Some (nw_now w)\<rparr>,
            w\<lparr>nw_posts := nw_posts w @
                 replicate k \<lparr>req_url = u, req_json = p, req_timeout = t\<rparr>,
              nw_sleeps := nw_sleeps w @ replicate (k - 1) BROADCASTING_RETRY_DELAY_SECONDS\<rparr>)"
proof -
  have n: "nat mx = k" using budget by auto
  have len: "\<forall>i<length (map int [0..<k]).
      is_network_failure (nw_outcomes w (length (nw_posts w) + i))"
    using failures by simp
  have "length (filter (\<lambda>a. a < mx - 1) (map int [0..<k])) = min k (nat (mx - 1))"
    by (rule filter_less_range)
  then have cnt: "length (filter (\<lambda>a. a < mx - 1) (map int [0..<k])) = k - 1"
    using budget by auto
  have "send_http_post_request_with_retries d u p t mx w =
      send_attempts d u p t mx (map int [0..<k] @ []) None w"
    by (simp add: send_http_post_request_with_retries_def py_range_def n)
  then show ?thesis
    unfolding send_attempts_failed_prefix [OF len] cnt by simp
qed

lemma send_frame:
  "\<exists>m\<le>nat mx. (0 < mx \<longrightarrow> 0 < m)
     \<and> nw_posts (snd (send_http_post_request_with_retries d u p t mx w)) =
         nw_posts w @ replicate m \<lparr>req_url = u, req_json = p, req_timeout = t\<rparr>
     \<and> nw_outcomes (snd (send_http_post_request_with_retries d u p t mx w)) = nw_outcomes w
     \<and> nw_now (snd (send_http_post_request_with_retries d u p t mx w)) = nw_now w
     \<and> destination_name (fst (send_http_post_request_with_retries d u p t mx w)) = d"
proof -
  have "length (py_range mx) = nat mx" and "0 < mx \<Longrightarrow> py_range mx \<noteq> []"
    by (auto simp: py_range_def)
  then show ?thesis
    unfolding send_http_post_request_with_retries_def
    using send_attempts_frame [of "py_range mx" d u p t mx None w] by metis
qed

text \<open>
  C2. The retry policy of the sender. At most \<open>max_retry_attempts\<close> POSTs are made.
  If the first \<open>k\<close> attempts fail at the network level and attempt \<open>k + 1\<close>, still
  within the budget, gets a response, then a status of 200, 201 or 202 gives a
  successful result carrying that status, and any other status gives a failed result
  carrying that status and the response text; in both cases exactly \<open>k + 1\<close> POSTs
  were made and the fixed delay was slept \<open>k\<close> times. If all attempts of a positive
  budget fail at the network level, the result is a failure with no status code whose
  message ends with the text of the last failure; the delay was slept between the
  attempts only. In particular a timeout followed by a 200 gives success with status
  200.
\<close>

theorem delivery_retry_policy:
  assumes failures: "\<forall>i<k. is_network_failure (nw_outcomes w (length (nw_posts w) + i))"
  shows "length (nw_posts (snd (send_http_post_request_with_retries d u p t mx w)))
           \<le> length (nw_posts w) + nat mx
    \<and> (int k < mx \<and> nw_outcomes w (length (nw_posts w) + k) = Response sc body
         \<and> sc \<in> {200, 201, 202} \<longrightarrow>
        fst (send_http_post_request_with_retries d u p t mx w) =
          \<lparr>destination_name = d, was_successful = True, error_message = None,
           response_status_code = Some sc, transmission_timestamp = Some (nw_now w)\<rparr>
        \<and> nw_posts (snd (send_http_post_request_with_retries d u p t mx w)) =
            nw_posts w @ replicate (Suc k) \<lparr>req_url = u, req_json = p, req_timeout = t\<rparr>
        \<and> nw_sleeps (snd (send_http_post_request_with_retries d u p t mx w)) =
            nw_sleeps w @ replicate k BROADCASTING_RETRY_DELAY_SECONDS)
    \<and> (int k < mx \<and> nw_outcomes w (length (nw_posts w) + k) = Response sc body
         \<and> sc \<notin> {200, 201, 202} \<longrightarrow>
        fst (send_http_post_request_with_retries d u p t mx w) =
          \<lparr>destination_name = d, was_successful = False,
           error_message = Some (''HTTP '' @ str_int sc @ '': '' @ body),
           response_status_code = Some sc, transmission_timestamp = Some (nw_now w)\<rparr>
        \<and> nw_posts (snd (send_http_post_request_with_retries d u p t mx w)) =
            nw_posts w @ replicate (Suc k) \<lparr>req_url = u, req_json = p, req_timeout = t\<rparr>
        \<and> nw_sleeps (snd (send_http_post_request_with_retries d u p t mx w)) =
            nw_sleeps w @ replicate k BROADCASTING_RETRY_DELAY_SECONDS)
    \<and> (0 < k \<and> int k = mx \<longrightarrow>
        (\<exists>err. last_exception_of u t (nw_outcomes w (length (nw_posts w) + k - 1)) = Some err
           \<and> fst (send_http_post_request_with_retries d u p t mx w) =
               \<lparr>destination_name = d, was_successful = False,
                error_message = Some (''Failed after '' @ str_int mx @
                                      '' attempts. Last error: '' @ err),
                response_status_code = None, transmission_timestamp = Some (nw_now w)\<rparr>)
        \<and> nw_posts (snd (send_http_post_request_with_retries d u p t mx w)) =
            nw_posts w @ replicate k \<lparr>req_url = u, req_json = p, req_timeout = t\<rparr>
        \<and> nw_sleeps (snd (send_http_post_request_with_retries d u p t mx w)) =
            nw_sleeps w @ replicate (k - 1) BROADCASTING_RETRY_DELAY_SECONDS)"
proof (intro conjI impI)
  show "length (nw_posts (snd (send_http_post_request_with_retries d u p t mx w)))
           \<le> length (nw_posts w) + nat mx"
    using send_frame [of mx d u p t w] by auto
next
  assume a: "int k < mx \<and> nw_outcomes w (length (nw_posts w) + k) = Response sc body
         \<and> sc \<in> {200, 201, 202}"
  then have b: "int k < mx" and c: "nw_outcomes w (length (nw_posts w) + k) = Response sc body"
    and ok: "sc \<in> {200, 201, 202}" by blast+
  show "fst (send_http_post_request_with_retries d u p t mx w) =
          \<lparr>destination_name = d, was_successful = True, error_message = None,
           response_status_code = Some sc, transmission_timestamp = Some (nw_now w)\<rparr>"
    using send_answered(1) [OF failures b c, of d u p t] ok by simp
  show "nw_posts (snd (send_http_post_request_with_retries d u p t mx w)) =
            nw_posts w @ replicate (Suc k) \<lparr>req_url = u, req_json = p, req_timeout = t\<rparr>"
    by (rule send_answered(2) [OF failures b c])
  show "nw_sleeps (snd (send_http_post_request_with_retries d u p t mx w)) =
            nw_sleeps w @ replicate k BROADCASTING_RETRY_DELAY_SECONDS"
    by (rule send_answered(3) [OF failures b c])
next
  assume a: "int k < mx \<and> nw_outcomes w (length (nw_posts w) + k) = Response sc body
         \<and> sc \<notin> {200, 201, 202}"
  then have b: "int k < mx" and c: "nw_outcomes w (length (nw_posts w) + k) = Response sc body"
    and bad: "sc \<notin> {200, 201, 202}" by blast+
  show "fst (send_http_post_request_with_retries d u p t mx w) =
          \<lparr>destination_name = d, was_successful = False,
           error_message = Some (''HTTP '' @ str_int sc @ '': '' @ body),
           response_status_code = Some sc, transmission_timestamp = Some (nw_now w)\<rparr>"
    using send_answered(1) [OF failures b c, of d u p t] bad by simp
  show "nw_posts (snd (send_http_post_request_with_retries d u p t mx w)) =
            nw_posts w @ replicate (Suc k) \<lparr>req_url = u, req_json = p, req_timeout = t\<rparr>"
    by (rule send_answered(2) [OF failures b c])
  show "nw_sleeps (snd (send_http_post_request_with_retries d u p t mx w)) =
            nw_sleeps w @ replicate k BROADCASTING_RETRY_DELAY_SECONDS"
    by (rule send_answered(3) [OF failures b c])
next
  assume a: "0 < k \<and> int k = mx"
  then have pos: "0 < k" and b: "int k = mx" by blast+
  from failures pos
  have "is_network_failure (nw_outcomes w (length (nw_posts w) + k - 1))"
    by (metis Nat.add_diff_assoc Suc_leI diff_less zero_less_one One_nat_def)
  then obtain err where
    err: "last_exception_of u t (nw_outcomes w (length (nw_posts w) + k - 1)) = Some err"
    by (cases "nw_outcomes w (length (nw_posts w) + k - 1)") auto
  show "\<exists>err. last_exception_of u t (nw_outcomes w (length (nw_posts w) + k - 1)) = Some err
           \<and> fst (send_http_post_request_with_retries d u p t mx w) =
               \<lparr>destination_name = d, was_successful = False,
                error_message = Some (''Failed after '' @ str_int mx @
                                      '' attempts. Last error: '' @ err),
                response_status_code = None, transmission_timestamp = Some (nw_now w)\<rparr>"
    using err pos by (simp add: send_exhausted [OF failures b] str_optional_def)
  show "nw_posts (snd (send_http_post_request_with_retries d u p t mx w)) =
            nw_posts w @ replicate k \<lparr>req_url = u, req_json = p, req_timeout = t\<rparr>"
    by (simp add: send_exhausted [OF failures b])
  show "nw_sleeps (snd (send_http_post_request_with_retries d u p t mx w)) =
            nw_sleeps w @ replicate (k - 1) BROADCASTING_RETRY_DELAY_SECONDS"
    by (simp add: send_exhausted [OF failures b])
qed

theorem delivery_retry_policy_witness:
  "fst (send_http_post_request_with_retries ''User Interface'' UI_HTTP_ENDPOINT
          (to_json_serializable_dict sample_reading) 3 3 (new_network_world timeout_then_ok)) =
     \<lparr>destination_name = ''User Interface'', was_successful = True, error_message = None,
      response_status_code = Some 200,
      transmission_timestamp = Some ''2024-01-01T00:00:01''\<rparr>
   \<and> length (nw_posts (snd (send_http_post_request_with_retries ''User Interface''
          UI_HTTP_ENDPOINT (to_json_serializable_dict sample_reading) 3 3
          (new_network_world timeout_then_ok)))) = 2
   \<and> nw_sleeps (snd (send_http_post_request_with_retries ''User Interface''
          UI_HTTP_ENDPOINT (to_json_serializable_dict sample_reading) 3 3
          (new_network_world timeout_then_ok))) = [2]
   \<and> error_message (fst (send_http_post_request_with_retries ''Rule Engine''
          ''http://localhost:3000/api/vitals/stream''
          (to_json_serializable_dict sample_reading) 5 3 (new_network_world always_refused))) =
       Some (''Failed after 3 attempts. Last error: '' @
             ''Connection error to http://localhost:3000/api/vitals/stream'')
   \<and> length (nw_posts (snd (send_http_post_request_with_retries ''Rule Engine''
          ''http://localhost:3000/api/vitals/stream''
          (to_json_serializable_dict sample_reading) 5 3 (new_network_world always_refused)))) = 3"
  using delivery_retry_policy
          [where k = 3 and w = "new_network_world always_refused" and mx = 3
             and d = "''Rule Engine''" and u = "''http://localhost:3000/api/vitals/stream''"
             and p = "to_json_serializable_dict sample_reading" and t = 5]
        delivery_retry_policy
          [where k = 1 and w = "new_network_world timeout_then_ok" and mx = 3
             and sc = 200 and body = "''ok''" and d = "''User Interface''"
             and u = UI_HTTP_ENDPOINT and p = "to_json_serializable_dict sample_reading"
             and t = 3]
  by (simp add: new_network_world_def timeout_then_ok_def always_refused_def
        BROADCASTING_RETRY_DELAY_SECONDS_def str_int_def str_nat.simps digit_char_def)

text \<open>
  C10. With \<open>max_retry_attempts \<le> 0\<close> the sender makes no attempt and sleeps no
  delay: the network is left as it was, and the result is a failure without status
  code whose message reads "Failed after \<open>max_retry_attempts\<close> attempts. Last
  error: None".
\<close>

theorem send_without_attempt_budget:
  "max_retry_attempts \<le> 0 \<Longrightarrow>
   send_http_post_request_with_retries d u p t max_retry_attempts w =
     (\<lparr>destination_name = d, was_successful = False,
       error_message = Some (''Failed after '' @ str_int max_retry_attempts @
                             '' attempts. Last error: None''),
       response_status_code = None, transmission_timestamp = Some (nw_now w)\<rparr>, w)"
  by (simp add: send_http_post_request_with_retries_def py_range_def str_optional_def)

theorem send_without_attempt_budget_witness:
  "(- 2 :: int) \<le> 0
   \<and> send_http_post_request_with_retries ''Rule Engine'' ''http://localhost:3000/x''
       (to_json_serializable_dict sample_reading) 5 (- 2) (new_network_world timeout_then_ok) =
     (\<lparr>destination_name = ''Rule Engine'', was_successful = False,
       error_message = Some ''Failed after -2 attempts. Last error: None'',
       response_status_code = None, transmission_timestamp = Some ''2024-01-01T00:00:01''\<rparr>,
      new_network_world timeout_then_ok)
   \<and> nw_posts (new_network_world timeout_then_ok) = []"
  using send_without_attempt_budget
          [of "- 2" "''Rule Engine''" "''http://localhost:3000/x''"
              "to_json_serializable_dict sample_reading" 5 "new_network_world timeout_then_ok"]
  by (simp add: new_network_world_def str_int_def str_nat.simps digit_char_def)

subsection \<open>Range of a generated value\<close>



lemma round1_one_decimal: "is_one_decimal (round1 x)"
  by (simp add: is_one_decimal_def round1_def)














lemma generated_value_one_decimal:
  "is_one_decimal (fst (generate_vital_sign_value gen vt mode rs))"
  by (simp add: generate_vital_sign_value_def generate_normal_patient_value_def
        generate_abnormal_patient_value_def generate_emergency_patient_value_def
        Let_def split_beta round1_one_decimal)





lemma floor_rat_divide_numeral:
  "\<lfloor>(numeral a :: rat) / numeral b\<rfloor> = numeral a div numeral b"
  by (metis floor_divide_of_int_eq of_int_numeral)




text \<open>
  The condition on the bounds of an override cannot be dropped: rounding leaves a
  range whose bounds have two decimals.
\<close>

lemma round1_leaves_fine_override:
  "fst (generate_vital_sign_value
          (snd (set_custom_vital_range new_generator BODY_TEMPERATURE (123 / 100) (127 / 100)))
          BODY_TEMPERATURE NORMAL_HEALTHY_PATIENT (steady_random_state (1 / 4))) = 12 / 10"
  by (simp add: generate_vital_sign_value_def get_vital_range_for_mode_def new_generator_def
        set_custom_vital_range_def generate_normal_patient_value_def random_uniform_def
        random_random_def steady_random_state_def constant_source_def round1_def
        round_half_even_def Let_def floor_rat_divide_numeral)

subsection \<open>One generation cycle\<close>

lemma notify_calls:
  "ew_calls (notify_data_broadcasting_callbacks behaviour cbs vs w) =
     ew_calls w @ map (\<lambda>cb. (cb, vs)) cbs"
  by (induction cbs arbitrary: w) (auto simp: Let_def split: callback_outcome.splits)

lemma notify_random:
  "ew_random (notify_data_broadcasting_callbacks behaviour cbs vs w) = ew_random w"
  by (induction cbs arbitrary: w) (auto simp: Let_def split: callback_outcome.splits)

lemma notify_printed:
  "ew_printed (notify_data_broadcasting_callbacks behaviour cbs vs w) =
     ew_printed w @
     concat (map (\<lambda>cb. case behaviour cb vs of
                          Returned \<Rightarrow> []
                        | Raised exception \<Rightarrow>
                            [''Error in data broadcasting callback: '' @ exception]) cbs)"
  by (induction cbs arbitrary: w) (auto simp: Let_def split: callback_outcome.splits)

lemma py_int_truncates:
  "\<bar>of_int (py_int x)\<bar> \<le> \<bar>x\<bar> \<and> \<bar>x - of_int (py_int x)\<bar> < 1
   \<and> (0 \<le> x \<longrightarrow> 0 \<le> py_int x) \<and> (x \<le> 0 \<longrightarrow> py_int x \<le> 0)"
  unfolding py_int_def by (auto; linarith)

lemma eval_normal_draws:
  "generate_vital_sign_value new_generator HEART_RATE NORMAL_HEALTHY_PATIENT
     \<lparr>rs_source = constant_source (1 / 2), rs_consumed = n\<rparr>
     = (80, \<lparr>rs_source = constant_source (1 / 2), rs_consumed = Suc n\<rparr>)"
  "generate_vital_sign_value new_generator BLOOD_PRESSURE_SYSTOLIC NORMAL_HEALTHY_PATIENT
     \<lparr>rs_source = constant_source (1 / 2), rs_consumed = n\<rparr>
     = (115, \<lparr>rs_source = constant_source (1 / 2), rs_consumed = Suc n\<rparr>)"
  "generate_vital_sign_value new_generator BLOOD_PRESSURE_DIASTOLIC NORMAL_HEALTHY_PATIENT
     \<lparr>rs_source = constant_source (1 / 2), rs_consumed = n\<rparr>
     = (75, \<lparr>rs_source = constant_source (1 / 2), rs_consumed = Suc n\<rparr>)"
  "generate_vital_sign_value new_generator OXYGEN_SATURATION NORMAL_HEALTHY_PATIENT
     \<lparr>rs_source = constant_source (1 / 2), rs_consumed = n\<rparr>
     = (195 / 2, \<lparr>rs_source = constant_source (1 / 2), rs_consumed = Suc n\<rparr>)"
  "generate_vital_sign_value new_generator BODY_TEMPERATURE NORMAL_HEALTHY_PATIENT
     \<lparr>rs_source = constant_source (1 / 2), rs_consumed = n\<rparr>
     = (366 / 10, \<lparr>rs_source = constant_source (1 / 2), rs_consumed = Suc n\<rparr>)"
  "generate_vital_sign_value new_generator RESPIRATORY_RATE NORMAL_HEALTHY_PATIENT
     \<lparr>rs_source = constant_source (1 / 2), rs_consumed = n\<rparr>
     = (16, \<lparr>rs_source = constant_source (1 / 2), rs_consumed = Suc n\<rparr>)"
  by (simp_all add: generate_vital_sign_value_def get_vital_range_for_mode_def new_generator_def
        generate_normal_patient_value_def random_uniform_def random_random_def
        constant_source_def round1_def round_half_even_def Let_def floor_rat_divide_numeral)

lemma sample_engine_fields:
  "self_vital_signs_generator engine_with_three_callbacks = new_generator"
  "self_current_simulation_mode engine_with_three_callbacks = NORMAL_HEALTHY_PATIENT"
  "self_data_broadcasting_callbacks engine_with_three_callbacks = [1, 2, 3]"
  "self_monitoring_device_identifier engine_with_three_callbacks = ''BioHarness_Sim_001''"
  "self_target_patient_identifier engine_with_three_callbacks = ''patient_001''"
  by (simp_all add: engine_with_three_callbacks_def add_data_broadcasting_callback_def
        new_engine_def DEFAULT_DEVICE_IDENTIFIER_def DEFAULT_PATIENT_IDENTIFIER_def)

lemma eval_generate_single:
  "fst (generate_single_vital_signs_reading second_callback_fails engine_with_three_callbacks
     (new_engine_world (constant_source (1 / 2)))) = sample_generated_reading"
proof -
  have p: "py_int 80 = 80" "py_int 115 = 115" "py_int 75 = 75" "py_int (195 / 2) = 97"
    "py_int 16 = 16"
    by (simp_all add: py_int_def floor_rat_divide_numeral)
  show ?thesis
    by (simp add: generate_single_vital_signs_reading_def Let_def sample_engine_fields
          new_engine_world_def eval_normal_draws p create_current_timestamp_reading_def
          sample_generated_reading_def)
qed

lemma generate_single_components:
  "generate_single_vital_signs_reading behaviour e w =
     (fst (generate_single_vital_signs_reading behaviour e w),
      fst (snd (generate_single_vital_signs_reading behaviour e w)),
      snd (snd (generate_single_vital_signs_reading behaviour e w)))"
  by simp

text \<open>
  C4. In one generation cycle every registered callback is called once, in
  registration order and with the reading of that cycle, whatever the callbacks
  before it did: a callback that raises is reported on the console and the next
  one is called all the same. The reading is stored as the most recent one and
  returned, and the list of registered callbacks is as before, so a failing
  callback stays registered.
\<close>

theorem callback_failure_isolated:
  assumes "generate_single_vital_signs_reading behaviour e w = (vs, e', w')"
  shows "ew_calls w' = ew_calls w @ map (\<lambda>cb. (cb, vs)) (self_data_broadcasting_callbacks e)
    \<and> ew_printed w' = ew_printed w @
         concat (map (\<lambda>cb. case behaviour cb vs of
                              Returned \<Rightarrow> []
                            | Raised exception \<Rightarrow>
                                [''Error in data broadcasting callback: '' @ exception])
                   (self_data_broadcasting_callbacks e))
    \<and> e' = e\<lparr>self_most_recent_vital_signs := Some vs\<rparr>
    \<and> self_most_recent_vital_signs e' = Some vs
    \<and> self_data_broadcasting_callbacks e' = self_data_broadcasting_callbacks e"
  using assms
  by (auto simp: generate_single_vital_signs_reading_def Let_def split_beta
        notify_calls notify_printed)

theorem callback_failure_isolated_witness:
  "ew_calls (snd (snd (generate_single_vital_signs_reading second_callback_fails
       engine_with_three_callbacks (new_engine_world (constant_source (1 / 2)))))) =
     [(1, sample_generated_reading), (2, sample_generated_reading),
      (3, sample_generated_reading)]
   \<and> second_callback_fails 2 sample_generated_reading = Raised ''sink down''
   \<and> ew_printed (snd (snd (generate_single_vital_signs_reading second_callback_fails
       engine_with_three_callbacks (new_engine_world (constant_source (1 / 2)))))) =
     [''Error in data broadcasting callback: sink down'']
   \<and> self_data_broadcasting_callbacks (fst (snd (generate_single_vital_signs_reading
       second_callback_fails engine_with_three_callbacks
       (new_engine_world (constant_source (1 / 2)))))) = [1, 2, 3]
   \<and> self_most_recent_vital_signs (fst (snd (generate_single_vital_signs_reading
       second_callback_fails engine_with_three_callbacks
       (new_engine_world (constant_source (1 / 2)))))) = Some sample_generated_reading"
proof -
  have w: "ew_calls (new_engine_world (constant_source (1 / 2))) = []"
    "ew_printed (new_engine_world (constant_source (1 / 2))) = []"
    by (simp_all add: new_engine_world_def)
  show ?thesis
    using callback_failure_isolated [OF generate_single_components,
            of second_callback_fails engine_with_three_callbacks
               "new_engine_world (constant_source (1 / 2))"]
    by (simp add: eval_generate_single sample_engine_fields w second_callback_fails_def)
qed

text \<open>
  C9. In the reading assembled by a generation cycle, heart rate, systolic and
  diastolic pressure, oxygen saturation and respiratory rate are \<open>int\<close> of the
  values sampled for them, in this order, from the generator: each sampled value has
  at most one decimal, and the field is its truncation toward zero (of no greater
  magnitude, less than one away, never of the opposite sign). The body temperature
  is the sampled one-decimal value itself.
\<close>

theorem reading_fields_truncated:
  assumes "generate_single_vital_signs_reading behaviour e w = (vs, e', w')"
    and "generate_vital_sign_value (self_vital_signs_generator e) HEART_RATE
           (self_current_simulation_mode e) (ew_random w) = (v1, rs1)"
    and "generate_vital_sign_value (self_vital_signs_generator e) BLOOD_PRESSURE_SYSTOLIC
           (self_current_simulation_mode e) rs1 = (v2, rs2)"
    and "generate_vital_sign_value (self_vital_signs_generator e) BLOOD_PRESSURE_DIASTOLIC
           (self_current_simulation_mode e) rs2 = (v3, rs3)"
    and "generate_vital_sign_value (self_vital_signs_generator e) OXYGEN_SATURATION
           (self_current_simulation_mode e) rs3 = (v4, rs4)"
    and "generate_vital_sign_value (self_vital_signs_generator e) BODY_TEMPERATURE
           (self_current_simulation_mode e) rs4 = (v5, rs5)"
    and "generate_vital_sign_value (self_vital_signs_generator e) RESPIRATORY_RATE
           (self_current_simulation_mode e) rs5 = (v6, rs6)"
  shows "heart_rate_bpm vs = py_int v1
    \<and> blood_pressure_systolic_mmhg vs = py_int v2
    \<and> blood_pressure_diastolic_mmhg vs = py_int v3
    \<and> oxygen_saturation_percentage vs = py_int v4
    \<and> body_temperature_celsius vs = v5
    \<and> respiratory_rate_per_minute vs = py_int v6
    \<and> (\<forall>v \<in> {v1, v2, v3, v4, v5, v6}. is_one_decimal v)
    \<and> (\<forall>v \<in> {v1, v2, v3, v4, v6}.
          \<bar>of_int (py_int v)\<bar> \<le> \<bar>v\<bar> \<and> \<bar>v - of_int (py_int v)\<bar> < 1
          \<and> (0 \<le> v \<longrightarrow> 0 \<le> py_int v) \<and> (v \<le> 0 \<longrightarrow> py_int v \<le> 0))"
proof -
  have fields: "vs = create_current_timestamp_reading (py_int v1) (py_int v2) (py_int v3)
      (py_int v4) v5 (py_int v6) (self_current_simulation_mode e)
      (self_monitoring_device_identifier e) (self_target_patient_identifier e) (ew_now w)"
    using assms by (simp add: generate_single_vital_signs_reading_def Let_def)
  have dec: "is_one_decimal v1" "is_one_decimal v2" "is_one_decimal v3" "is_one_decimal v4"
    "is_one_decimal v5" "is_one_decimal v6"
    using assms(2-7) generated_value_one_decimal by (metis fst_conv)+
  show ?thesis
    using dec py_int_truncates by (simp add: fields create_current_timestamp_reading_def)
qed

theorem reading_fields_truncated_witness:
  "oxygen_saturation_percentage (fst (generate_single_vital_signs_reading second_callback_fails
       engine_with_three_callbacks (new_engine_world (constant_source (1 / 2))))) = 97
   \<and> fst (generate_vital_sign_value new_generator OXYGEN_SATURATION NORMAL_HEALTHY_PATIENT
            \<lparr>rs_source = constant_source (1 / 2), rs_consumed = 3\<rparr>) = 195 / 2
   \<and> py_int (195 / 2) = 97
   \<and> body_temperature_celsius (fst (generate_single_vital_signs_reading second_callback_fails
       engine_with_three_callbacks (new_engine_world (constant_source (1 / 2))))) = 366 / 10"
proof -
  have e: "self_vital_signs_generator engine_with_three_callbacks = new_generator"
    "self_current_simulation_mode engine_with_three_callbacks = NORMAL_HEALTHY_PATIENT"
    "ew_random (new_engine_world (constant_source (1 / 2))) =
       \<lparr>rs_source = constant_source (1 / 2), rs_consumed = 0\<rparr>"
    by (simp_all add: sample_engine_fields new_engine_world_def)
  show ?thesis
    using reading_fields_truncated
            [where e = engine_with_three_callbacks
               and w = "new_engine_world (constant_source (1 / 2))"
               and behaviour = second_callback_fails,
             OF generate_single_components, unfolded e,
             OF eval_normal_draws(1) eval_normal_draws(2) eval_normal_draws(3)
                eval_normal_draws(4) eval_normal_draws(5) eval_normal_draws(6)]
    by (simp add: eval_normal_draws py_int_def floor_rat_divide_numeral)
qed

subsection \<open>Dispatch to the destinations\<close>

lemma broadcast_to_rule_engine_frame:
  "\<exists>m. 0 < m \<and> m \<le> 3
     \<and> nw_posts (snd (broadcast_to_rule_engine b vs w)) =
         nw_posts w @ replicate m
           \<lparr>req_url = self_rule_engine_endpoint_url b,
            req_json = to_json_serializable_dict vs,
            req_timeout = RULE_ENGINE_CONNECTION_TIMEOUT_SECONDS\<rparr>
     \<and> destination_name (fst (broadcast_to_rule_engine b vs w)) = ''Rule Engine''"
  using send_frame [of RULE_ENGINE_REQUEST_RETRY_COUNT "''Rule Engine''"
          "self_rule_engine_endpoint_url b" "to_json_serializable_dict vs"
          RULE_ENGINE_CONNECTION_TIMEOUT_SECONDS w]
  unfolding broadcast_to_rule_engine_def
  by (auto simp: RULE_ENGINE_REQUEST_RETRY_COUNT_def)

lemma broadcast_to_user_interface_frame:
  "\<exists>m. 0 < m \<and> m \<le> 3
     \<and> nw_posts (snd (broadcast_to_user_interface b vs w)) =
         nw_posts w @ replicate m
           \<lparr>req_url = self_ui_endpoint_url b,
            req_json = to_json_serializable_dict vs,
            req_timeout = UI_CONNECTION_TIMEOUT_SECONDS\<rparr>
     \<and> destination_name (fst (broadcast_to_user_interface b vs w)) = ''User Interface''"
  using send_frame [of MAX_BROADCASTING_RETRIES "''User Interface''"
          "self_ui_endpoint_url b" "to_json_serializable_dict vs"
          UI_CONNECTION_TIMEOUT_SECONDS w]
  unfolding broadcast_to_user_interface_def
  by (auto simp: MAX_BROADCASTING_RETRIES_def)

lemma broadcast_components:
  "broadcast_vital_signs_to_all_destinations b vs w =
     (fst (broadcast_vital_signs_to_all_destinations b vs w),
      snd (broadcast_vital_signs_to_all_destinations b vs w))"
  by simp

lemma eval_ui_after_rule_engine_failure:
  "map was_successful (fst (broadcast_vital_signs_to_all_destinations new_broadcaster
       sample_reading (new_network_world refused_thrice_then_ok))) = [False, True]"
  by (simp add: broadcast_vital_signs_to_all_destinations_def broadcast_to_rule_engine_def
        broadcast_to_user_interface_def send_http_post_request_with_retries_def py_range_def
        new_broadcaster_def new_network_world_def refused_thrice_then_ok_def
        ENABLE_RULE_ENGINE_BROADCASTING_def ENABLE_UI_BROADCASTING_def
        RULE_ENGINE_REQUEST_RETRY_COUNT_def MAX_BROADCASTING_RETRIES_def
        upt_conv_Cons Let_def split_beta)

text \<open>
  C7. Dispatching a reading returns one result per enabled destination, the rule
  engine first, and makes no POST for a disabled one: the requests added are between
  one and three to the rule engine endpoint exactly when it is enabled, followed by
  between one and three to the user interface endpoint exactly when it is enabled,
  whatever the outcomes of the earlier requests. With the rule engine disabled and
  the user interface enabled the only result is that of the user interface.
\<close>

theorem broadcast_one_result_per_enabled_destination:
  assumes "broadcast_vital_signs_to_all_destinations b vs w = (results, w')"
  shows "map destination_name results =
           (if self_is_rule_engine_broadcasting_enabled b then [''Rule Engine''] else []) @
           (if self_is_ui_broadcasting_enabled b then [''User Interface''] else [])
    \<and> (\<exists>m1 m2. nw_posts w' = nw_posts w
           @ replicate m1 \<lparr>req_url = self_rule_engine_endpoint_url b,
                            req_json = to_json_serializable_dict vs,
                            req_timeout = RULE_ENGINE_CONNECTION_TIMEOUT_SECONDS\<rparr>
           @ replicate m2 \<lparr>req_url = self_ui_endpoint_url b,
                            req_json = to_json_serializable_dict vs,
                            req_timeout = UI_CONNECTION_TIMEOUT_SECONDS\<rparr>
         \<and> (0 < m1) = self_is_rule_engine_broadcasting_enabled b
         \<and> (0 < m2) = self_is_ui_broadcasting_enabled b
         \<and> m1 \<le> 3 \<and> m2 \<le> 3)
    \<and> (\<not> self_is_rule_engine_broadcasting_enabled b \<and> self_is_ui_broadcasting_enabled b \<longrightarrow>
          results = [fst (broadcast_to_user_interface b vs w)])"
proof -
  let ?rule = "\<lparr>req_url = self_rule_engine_endpoint_url b,
                 req_json = to_json_serializable_dict vs,
                 req_timeout = RULE_ENGINE_CONNECTION_TIMEOUT_SECONDS\<rparr>"
  let ?ui = "\<lparr>req_url = self_ui_endpoint_url b,
               req_json = to_json_serializable_dict vs,
               req_timeout = UI_CONNECTION_TIMEOUT_SECONDS\<rparr>"
  let ?w1 = "if self_is_rule_engine_broadcasting_enabled b
             then snd (broadcast_to_rule_engine b vs w) else w"
  let ?r1 = "if self_is_rule_engine_broadcasting_enabled b
             then [fst (broadcast_to_rule_engine b vs w)] else []"
  have res: "results = ?r1 @ (if self_is_ui_broadcasting_enabled b
                              then [fst (broadcast_to_user_interface b vs ?w1)] else [])"
    and world: "w' = (if self_is_ui_broadcasting_enabled b
                      then snd (broadcast_to_user_interface b vs ?w1) else ?w1)"
    using assms
    by (auto simp: broadcast_vital_signs_to_all_destinations_def split_beta split: if_splits)
  obtain m1 where m1: "nw_posts ?w1 = nw_posts w @ replicate m1 ?rule"
    "(0 < m1) = self_is_rule_engine_broadcasting_enabled b" "m1 \<le> 3"
  proof (cases "self_is_rule_engine_broadcasting_enabled b")
    case True
    with broadcast_to_rule_engine_frame [of b vs w] that show ?thesis by auto
  next
    case False
    with that [of 0] show ?thesis by simp
  qed
  obtain m2 where m2: "nw_posts w' = nw_posts ?w1 @ replicate m2 ?ui"
    "(0 < m2) = self_is_ui_broadcasting_enabled b" "m2 \<le> 3"
  proof (cases "self_is_ui_broadcasting_enabled b")
    case True
    with broadcast_to_user_interface_frame [of b vs ?w1] world that show ?thesis by auto
  next
    case False
    with that [of 0] world show ?thesis by simp
  qed
  have names: "map destination_name results =
           (if self_is_rule_engine_broadcasting_enabled b then [''Rule Engine''] else []) @
           (if self_is_ui_broadcasting_enabled b then [''User Interface''] else [])"
    using broadcast_to_rule_engine_frame [of b vs w]
      broadcast_to_user_interface_frame [of b vs ?w1]
    by (auto simp: res)
  have posts: "\<exists>m1 m2. nw_posts w' = nw_posts w @ replicate m1 ?rule @ replicate m2 ?ui
         \<and> (0 < m1) = self_is_rule_engine_broadcasting_enabled b
         \<and> (0 < m2) = self_is_ui_broadcasting_enabled b
         \<and> m1 \<le> 3 \<and> m2 \<le> 3"
    using m1 m2 by (intro exI [of _ m1] exI [of _ m2]) simp
  have only_ui: "\<not> self_is_rule_engine_broadcasting_enabled b
      \<and> self_is_ui_broadcasting_enabled b \<longrightarrow>
          results = [fst (broadcast_to_user_interface b vs w)]"
    by (simp add: res)
  show ?thesis
    using names posts only_ui by blast
qed

theorem broadcast_one_result_per_enabled_destination_witness:
  "map destination_name (fst (broadcast_vital_signs_to_all_destinations ui_only_broadcaster
       sample_reading (new_network_world always_refused))) = [''User Interface'']
   \<and> length (fst (broadcast_vital_signs_to_all_destinations ui_only_broadcaster
       sample_reading (new_network_world always_refused))) = 1
   \<and> map destination_name (fst (broadcast_vital_signs_to_all_destinations new_broadcaster
       sample_reading (new_network_world refused_thrice_then_ok)))
       = [''Rule Engine'', ''User Interface'']
   \<and> map was_successful (fst (broadcast_vital_signs_to_all_destinations new_broadcaster
       sample_reading (new_network_world refused_thrice_then_ok))) = [False, True]"
proof -
  have flags: "\<not> self_is_rule_engine_broadcasting_enabled ui_only_broadcaster"
    "self_is_ui_broadcasting_enabled ui_only_broadcaster"
    "self_is_rule_engine_broadcasting_enabled new_broadcaster"
    "self_is_ui_broadcasting_enabled new_broadcaster"
    by (simp_all add: ui_only_broadcaster_def enable_rule_engine_broadcasting_def
          new_broadcaster_def ENABLE_RULE_ENGINE_BROADCASTING_def ENABLE_UI_BROADCASTING_def)
  have one: "map destination_name (fst (broadcast_vital_signs_to_all_destinations
      ui_only_broadcaster sample_reading (new_network_world always_refused)))
      = [''User Interface'']"
    using broadcast_one_result_per_enabled_destination
            [OF broadcast_components, of ui_only_broadcaster sample_reading
               "new_network_world always_refused", THEN conjunct1]
    by (simp add: flags)
  have two: "map destination_name (fst (broadcast_vital_signs_to_all_destinations
      new_broadcaster sample_reading (new_network_world refused_thrice_then_ok)))
      = [''Rule Engine'', ''User Interface'']"
    using broadcast_one_result_per_enabled_destination
            [OF broadcast_components, of new_broadcaster sample_reading
               "new_network_world refused_thrice_then_ok", THEN conjunct1]
    by (simp add: flags)
  from one have "length (map destination_name (fst (broadcast_vital_signs_to_all_destinations
      ui_only_broadcaster sample_reading (new_network_world always_refused)))) = 1"
    by simp
  then have len: "length (fst (broadcast_vital_signs_to_all_destinations
      ui_only_broadcaster sample_reading (new_network_world always_refused))) = 1"
    by simp
  show ?thesis
    using one two len eval_ui_after_rule_engine_failure by blast
qed

subsection \<open>Submission to the rule engine\<close>

lemma dict_keys_generic:
  "dict_keys (to_json_serializable_dict vs) = [''timestamp'', ''vitals'', ''metadata'']"
  by (simp add: dict_keys_def to_json_serializable_dict_def)

lemma dict_keys_rule_engine_payload:
  "dict_keys (rule_engine_payload vs now) =
     [''deviceId'', ''patientId'', ''timestamp'', ''readings'', ''metadata'',
      ''submission_source'', ''requires_immediate_processing'', ''data_quality_indicators'']"
  by (simp add: dict_keys_def rule_engine_payload_def format_vital_signs_for_rule_engine_def)

lemma submit_posts:
  "\<exists>m. 0 < m \<and> m \<le> 3
     \<and> nw_posts (snd (submit_vital_signs_for_rule_evaluation client vs w)) =
         nw_posts w @ replicate m
           \<lparr>req_url = self_rule_engine_endpoint_url (self_data_broadcaster client),
            req_json = to_json_serializable_dict vs,
            req_timeout = RULE_ENGINE_CONNECTION_TIMEOUT_SECONDS\<rparr>"
  using broadcast_to_rule_engine_frame [of "self_data_broadcaster client" vs w]
  by (auto simp: submit_vital_signs_for_rule_evaluation_def Let_def)

text \<open>
  C3. What \<open>submit_vital_signs_for_rule_evaluation\<close> posts, at a sample reading
  and a rule engine that answers 200: one request, whose body is the generic
  dictionary of the reading with the keys \<open>timestamp\<close>, \<open>vitals\<close> and
  \<open>metadata\<close>. The enriched dictionary the method builds, with \<open>deviceId\<close>,
  \<open>readings\<close>, \<open>requires_immediate_processing\<close> and the other keys, is not what
  is sent. The lemma \<open>submit_posts\<close> says the same of every reading and network.
\<close>

theorem submit_sends_generic_payload:
  "map req_json (nw_posts (snd (submit_vital_signs_for_rule_evaluation new_rule_engine_client
       sample_reading (new_network_world (always_status 200)))))
     = [to_json_serializable_dict sample_reading]
   \<and> dict_keys (to_json_serializable_dict sample_reading)
       = [''timestamp'', ''vitals'', ''metadata'']
   \<and> dict_keys (rule_engine_payload sample_reading
         (nw_now (new_network_world (always_status 200))))
       = [''deviceId'', ''patientId'', ''timestamp'', ''readings'', ''metadata'',
          ''submission_source'', ''requires_immediate_processing'',
          ''data_quality_indicators'']
   \<and> was_successful (fst (submit_vital_signs_for_rule_evaluation new_rule_engine_client
       sample_reading (new_network_world (always_status 200))))"
proof -
  have "map req_json (nw_posts (snd (submit_vital_signs_for_rule_evaluation
      new_rule_engine_client sample_reading (new_network_world (always_status 200)))))
     = [to_json_serializable_dict sample_reading]"
    and "was_successful (fst (submit_vital_signs_for_rule_evaluation new_rule_engine_client
       sample_reading (new_network_world (always_status 200))))"
    by (simp_all add: submit_vital_signs_for_rule_evaluation_def broadcast_to_rule_engine_def
          send_http_post_request_with_retries_def py_range_def new_network_world_def
          always_status_def RULE_ENGINE_REQUEST_RETRY_COUNT_def upt_conv_Cons Let_def)
  then show ?thesis
    by (simp add: dict_keys_generic dict_keys_rule_engine_payload)
qed

end
